theory Spec2Isabelle
  imports Complex_Main "HOL-Library.Multiset"
begin

section \<open>JavaScript values\<close>

text \<open>
  The dashboard receives its analytics object as parsed JSON, so a field the code tests
  with \<^verbatim>\<open>typeof\<close>, \<^verbatim>\<open>&&\<close> or \<^verbatim>\<open>||\<close> can hold any JSON value.
  Such fields are \<open>jsval\<close>s. A JSON number is finite; \<open>JObject\<close> stands for any object or
  array. IEEE rounding is not modelled: finite numbers are exact rationals.
\<close>

datatype jsval = JUndefined | JNull | JBool bool | JNumber rat | JString string | JObject

text \<open>ToBoolean, as \<^verbatim>\<open>&&\<close>, \<^verbatim>\<open>||\<close> and \<^verbatim>\<open>if\<close> apply it.\<close>

fun truthy :: "jsval \<Rightarrow> bool" where
  "truthy JUndefined = False"
| "truthy JNull = False"
| "truthy (JBool b) = b"
| "truthy (JNumber r) = (r \<noteq> 0)"
| "truthy (JString s) = (s \<noteq> [])"
| "truthy JObject = True"

text \<open>\<^verbatim>\<open>typeof v === 'string'\<close>; \<^verbatim>\<open>typeof v === 'number'\<close> is a match on \<open>JNumber\<close>.\<close>

fun typeof_string :: "jsval \<Rightarrow> bool" where
  "typeof_string (JString s) = True"
| "typeof_string v = False"

text \<open>
  A computed number: a finite value or NaN. No expression of the modelled code divides by
  zero, so the infinities arise only by overflow, which is not modelled.
\<close>

datatype jsnum = Num rat | NaN

text \<open>The values thrown in the backend: a plain \<^verbatim>\<open>Error\<close> with its message, the HTTP
  client's error with its message and the status of the upstream response when there was
  one, and the request validator's error with its issues.\<close>

datatype js_error = Error string | AxiosError string "nat option" | ZodError "string list"

section \<open>The analytics snapshot\<close>

text \<open>
  Only the fields that the modelled functions read are kept. An array element that is
  \<open>None\<close> is a falsy or primitive element, which every filter of the code drops; an
  array that is \<open>None\<close> is absent or not an array. The fields \<open>label_name\<close> and
  \<open>label_color\<close> are the fields \<^verbatim>\<open>name\<close> and \<^verbatim>\<open>color\<close> of a label.
\<close>

record IssueLabel =
  label_name :: string
  label_color :: string

record GitHubIssue =
  state :: jsval
  labels :: "IssueLabel option list option"

record CommitActivityWeek =
  week :: jsval
  total :: jsval

record GitHubContributor =
  login :: string
  contributions :: rat

record GitHubCommit =
  sha :: string
  commit_message :: string

record GitHubRepo =
  description :: "string option"
  license :: "string option"
  stargazers_count :: "rat option"
  watchers_count :: rat
  forks_count :: rat
  open_issues_count :: "rat option"
  created_at :: string
  updated_at :: string

record RepoAnalytics =
  repo :: GitHubRepo
  contributors :: "GitHubContributor list option"
  recentCommits :: "GitHubCommit list option"
  issues :: "GitHubIssue option list option"
  commitActivity :: "CommitActivityWeek option list option"
  languages :: "(string \<times> rat) list option"

section \<open>Issue statistics\<close>

record IssueStats =
  opened :: nat
  closed :: nat
  total_issues :: nat

text \<open>\<^verbatim>\<open>getIssueStats\<close> of the first dashboard component, over its \<^verbatim>\<open>analytics\<close> state
  (\<open>None\<close> is \<^verbatim>\<open>null\<close>).\<close>

definition getIssueStats :: "RepoAnalytics option \<Rightarrow> IssueStats" where
  "getIssueStats analytics =
     (case analytics of
        None \<Rightarrow> \<lparr>opened = 0, closed = 0, total_issues = 0\<rparr>
      | Some a \<Rightarrow>
          (case issues a of
             None \<Rightarrow> \<lparr>opened = 0, closed = 0, total_issues = 0\<rparr>
           | Some is \<Rightarrow>
               let validIssues = [x. Some x \<leftarrow> is, typeof_string (state x)];
                   op = length (filter (\<lambda>issue. state issue = JString ''open'') validIssues);
                   cl = length (filter (\<lambda>issue. state issue = JString ''closed'') validIssues)
               in \<lparr>opened = op, closed = cl, total_issues = op + cl\<rparr>))"

text \<open>The inline \<^verbatim>\<open>issueStats\<close> of the single-view branch of the second component.\<close>

definition issueStats :: "RepoAnalytics option \<Rightarrow> IssueStats" where
  "issueStats analytics =
     (case analytics of
        None \<Rightarrow> \<lparr>opened = 0, closed = 0, total_issues = 0\<rparr>
      | Some a \<Rightarrow>
          (case issues a of
             None \<Rightarrow> \<lparr>opened = 0, closed = 0, total_issues = 0\<rparr>
           | Some is \<Rightarrow>
               \<lparr>opened = length (filter (\<lambda>i. case i of None \<Rightarrow> False
                            | Some x \<Rightarrow> state x = JString ''open'') is),
                closed = length (filter (\<lambda>i. case i of None \<Rightarrow> False
                            | Some x \<Rightarrow> state x = JString ''closed'') is),
                total_issues = length (filter (\<lambda>i. case i of None \<Rightarrow> False
                            | Some x \<Rightarrow> truthy (state x)) is)\<rparr>))"

text \<open>The empty snapshot, from which concrete inputs are built by record update.\<close>

definition empty_repo :: GitHubRepo where
  "empty_repo =
     \<lparr>description = None, license = None, stargazers_count = None, watchers_count = 0,
      forks_count = 0, open_issues_count = None, created_at = [], updated_at = []\<rparr>"

definition empty_analytics :: RepoAnalytics where
  "empty_analytics =
     \<lparr>repo = empty_repo, contributors = None, recentCommits = None, issues = None,
      commitActivity = None, languages = None\<rparr>"

text \<open>The issue records of a snapshot: none when the state or the array is absent.\<close>

definition issue_records :: "RepoAnalytics option \<Rightarrow> GitHubIssue option list" where
  "issue_records analytics =
     (case analytics of None \<Rightarrow> []
      | Some a \<Rightarrow> (case issues a of None \<Rightarrow> [] | Some is \<Rightarrow> is))"

definition state_is :: "string \<Rightarrow> GitHubIssue option \<Rightarrow> bool" where
  "state_is s i = (case i of None \<Rightarrow> False | Some x \<Rightarrow> state x = JString s)"

text \<open>A record whose state is exactly \<^verbatim>\<open>'open'\<close> or exactly \<^verbatim>\<open>'closed'\<close>.\<close>

definition open_or_closed :: "GitHubIssue option \<Rightarrow> bool" where
  "open_or_closed i =
     (case i of None \<Rightarrow> False
      | Some x \<Rightarrow> state x = JString ''open'' \<or> state x = JString ''closed'')"

text \<open>A record whose state is truthy.\<close>

definition truthy_state :: "GitHubIssue option \<Rightarrow> bool" where
  "truthy_state i = (case i of None \<Rightarrow> False | Some x \<Rightarrow> truthy (state x))"

section \<open>Repository URL validation\<close>

text \<open>
  \<^verbatim>\<open>validateRepoUrl\<close> matches its argument against the regular expression
  \<^verbatim>\<open>^https:\/\/github\.com\/([^\/]+)\/([^\/]+?)(?:\/|\.git)?$\<close>.
  The lazy group \<^verbatim>\<open>([^\/]+?)\<close> holds \<open>acc\<close> and grows one character at a time;
  before each step the rest of the input is tried against \<^verbatim>\<open>(?:\/|\.git)?$\<close>.
\<close>

fun match_repo :: "string \<Rightarrow> string \<Rightarrow> string option" where
  "match_repo acc [] = Some acc"
| "match_repo acc (c # cs) =
     (if c # cs = ''/'' \<or> c # cs = ''.git'' then Some acc
      else if c = CHR ''/'' then None
      else match_repo (acc @ [c]) cs)"

text \<open>
  The greedy group \<^verbatim>\<open>([^\/]+)\<close> takes every character up to the first slash after the
  19 characters of the prefix: a shorter owner would have to be followed by a slash.
  A failed match throws; the thrown value is \<open>Inl\<close>.
\<close>

definition validateRepoUrl :: "string \<Rightarrow> js_error + (string \<times> string)" where
  "validateRepoUrl url =
     (if take 19 url \<noteq> ''https://github.com/'' then Inl (Error ''Invalid GitHub repository URL'')
      else
        let rest = drop 19 url;
            owner = takeWhile (\<lambda>c. c \<noteq> CHR ''/'') rest
        in if owner = [] then Inl (Error ''Invalid GitHub repository URL'')
           else (case dropWhile (\<lambda>c. c \<noteq> CHR ''/'') rest of
                   s # c # cs \<Rightarrow>
                     (if c = CHR ''/'' then Inl (Error ''Invalid GitHub repository URL'')
                      else (case match_repo [c] cs of
                              None \<Rightarrow> Inl (Error ''Invalid GitHub repository URL'')
                            | Some r \<Rightarrow> Inr (owner, r)))
                 | _ \<Rightarrow> Inl (Error ''Invalid GitHub repository URL'')))"

text \<open>The form the documentation of the function names, in its own words:
  \<^verbatim>\<open>https://github.com/<owner>/<repo>\<close> with an optional trailing \<^verbatim>\<open>/\<close> or \<^verbatim>\<open>.git\<close>.\<close>

definition repo_url_form :: "string \<Rightarrow> bool" where
  "repo_url_form url =
     (\<exists>ow rp sfx. url = ''https://github.com/'' @ ow @ ''/'' @ rp @ sfx
        \<and> ow \<noteq> [] \<and> CHR ''/'' \<notin> set ow \<and> rp \<noteq> [] \<and> CHR ''/'' \<notin> set rp
        \<and> (sfx = [] \<or> sfx = ''/'' \<or> sfx = ''.git''))"


section \<open>Backend: aggregation and error handling\<close>

text \<open>
  What a template literal \<^verbatim>\<open>${error}\<close> prints, what \<^verbatim>\<open>error.message\<close> reads and what
  \<^verbatim>\<open>error.response?.status\<close> reads: only the HTTP client's error has a response.
\<close>

fun error_text :: "js_error \<Rightarrow> string" where
  "error_text (Error m) = ''Error: '' @ m"
| "error_text (AxiosError m st) = ''AxiosError: '' @ m"
| "error_text (ZodError is) = ''ZodError: '' @ concat is"

fun error_message :: "js_error \<Rightarrow> string" where
  "error_message (Error m) = m"
| "error_message (AxiosError m st) = m"
| "error_message (ZodError is) = concat is"

fun response_status :: "js_error \<Rightarrow> nat option" where
  "response_status (AxiosError m st) = st"
| "response_status e = None"

text \<open>
  A settled promise: the time at which it settled, and its value (\<open>Inr\<close>) or the reason of
  its rejection (\<open>Inl\<close>). \<^verbatim>\<open>Promise.all\<close> is fulfilled when its last promise is, and
  rejected with the reason of the first promise that is rejected, the earlier in the
  array when two are rejected at the same time.
\<close>

type_synonym 'a settled = "nat \<times> (js_error + 'a)"

definition Promise_all :: "'a settled \<Rightarrow> 'b settled \<Rightarrow> ('a \<times> 'b) settled" where
  "Promise_all p q =
     (case (snd p, snd q) of
        (Inr a, Inr b) \<Rightarrow> (max (fst p) (fst q), Inr (a, b))
      | (Inl e, Inr b) \<Rightarrow> (fst p, Inl e)
      | (Inr a, Inl e) \<Rightarrow> (fst q, Inl e)
      | (Inl e, Inl e') \<Rightarrow> if fst p \<le> fst q then (fst p, Inl e) else (fst q, Inl e'))"

text \<open>
  The methods of the service on a cold cache (a cached value is returned without a
  fetch): the argument is the settled request to the upstream API, and a rejection is
  caught and thrown again as a plain error.
\<close>

definition rethrow :: "string \<Rightarrow> 'a settled \<Rightarrow> 'a settled" where
  "rethrow pre p =
     (case snd p of
        Inr v \<Rightarrow> (fst p, Inr v)
      | Inl error \<Rightarrow> (fst p, Inl (Error (pre @ error_text error))))"

definition getRepoInfo :: "GitHubRepo settled \<Rightarrow> GitHubRepo settled" where
  "getRepoInfo response = rethrow ''Failed to fetch repository: '' response"

definition getContributors ::
  "GitHubContributor list option settled \<Rightarrow> GitHubContributor list option settled" where
  "getContributors response = rethrow ''Failed to fetch contributors: '' response"

definition getCommits ::
  "GitHubCommit list option settled \<Rightarrow> GitHubCommit list option settled" where
  "getCommits response = rethrow ''Failed to fetch commits: '' response"

definition getIssues ::
  "GitHubIssue option list settled \<Rightarrow> GitHubIssue option list settled
   \<Rightarrow> GitHubIssue option list option settled" where
  "getIssues openIssues closedIssues =
     rethrow ''Failed to fetch issues: ''
       (case Promise_all openIssues closedIssues of
          (t, Inr (op, cl)) \<Rightarrow> (t, Inr (Some (op @ cl)))
        | (t, Inl e) \<Rightarrow> (t, Inl e))"

definition getCommitActivity ::
  "CommitActivityWeek option list option settled
   \<Rightarrow> CommitActivityWeek option list option settled" where
  "getCommitActivity response = rethrow ''Failed to fetch commit activity: '' response"

definition getLanguages ::
  "(string \<times> rat) list option settled \<Rightarrow> (string \<times> rat) list option settled" where
  "getLanguages response = rethrow ''Failed to fetch languages: '' response"

text \<open>The seven requests that one aggregation sends upstream, as they settle.\<close>

record upstream =
  repo_response :: "GitHubRepo settled"
  contributors_response :: "GitHubContributor list option settled"
  commits_response :: "GitHubCommit list option settled"
  open_issues_response :: "GitHubIssue option list settled"
  closed_issues_response :: "GitHubIssue option list settled"
  activity_response :: "CommitActivityWeek option list option settled"
  languages_response :: "(string \<times> rat) list option settled"

definition getFullAnalytics :: "upstream \<Rightarrow> js_error + RepoAnalytics" where
  "getFullAnalytics up =
     (case Promise_all (getRepoInfo (repo_response up))
             (Promise_all (getContributors (contributors_response up))
                (Promise_all (getCommits (commits_response up))
                   (Promise_all
                      (getIssues (open_issues_response up) (closed_issues_response up))
                      (Promise_all (getCommitActivity (activity_response up))
                         (getLanguages (languages_response up)))))) of
        (t, Inr (repoInfo, contribs, commits, iss, activity, langs)) \<Rightarrow>
          Inr \<lparr>repo = repoInfo, contributors = contribs, recentCommits = commits,
               issues = iss, commitActivity = activity, languages = langs\<rparr>
      | (t, Inl error) \<Rightarrow>
          Inl (Error (''Failed to fetch full analytics: '' @ error_text error)))"

text \<open>
  The error-handling middleware: the status and the JSON body of its response.
  \<open>development\<close> is \<^verbatim>\<open>process.env.NODE_ENV === 'development'\<close>; a field that is
  \<^verbatim>\<open>undefined\<close> is \<open>None\<close>.
\<close>

record error_response =
  status :: nat
  error :: string
  details :: "string list option"
  message :: "string option"

definition errorHandler :: "bool \<Rightarrow> js_error \<Rightarrow> error_response" where
  "errorHandler development err =
     (case err of
        ZodError is \<Rightarrow>
          \<lparr>status = 400, error = ''Validation error'', details = Some is, message = None\<rparr>
      | _ \<Rightarrow>
          if response_status err = Some 404
          then \<lparr>status = 404, error = ''Repository not found'', details = None,
                message = None\<rparr>
          else if response_status err = Some 403
          then \<lparr>status = 403, error = ''GitHub API rate limit exceeded'', details = None,
                message = None\<rparr>
          else \<lparr>status = 500, error = ''Internal server error'', details = None,
                message = (if development then Some (error_message err) else None)\<rparr>)"

text \<open>
  The route \<^verbatim>\<open>/analyze/:owner/:repo\<close> once its parameters have passed validation: the
  snapshot, or the response of the middleware to the error that was thrown.
\<close>

definition analyze :: "bool \<Rightarrow> upstream \<Rightarrow> error_response + RepoAnalytics" where
  "analyze development up =
     (case getFullAnalytics up of
        Inr analytics \<Rightarrow> Inr analytics
      | Inl err \<Rightarrow> Inl (errorHandler development err))"

text \<open>
  An upstream on which every request succeeds with empty data at time 1, and the same
  upstream where the repository request is answered with the status 404, or 403, or is
  not answered at all.
\<close>

definition upstream_ok :: upstream where
  "upstream_ok =
     \<lparr>repo_response = (1, Inr empty_repo), contributors_response = (1, Inr (Some [])),
      commits_response = (1, Inr (Some [])), open_issues_response = (1, Inr []),
      closed_issues_response = (1, Inr []), activity_response = (1, Inr (Some [])),
      languages_response = (1, Inr (Some []))\<rparr>"

definition upstream_404 :: upstream where
  "upstream_404 =
     upstream_ok\<lparr>repo_response :=
                   (1, Inl (AxiosError ''Request failed with status code 404'' (Some 404)))\<rparr>"

definition upstream_403 :: upstream where
  "upstream_403 =
     upstream_ok\<lparr>repo_response :=
                   (1, Inl (AxiosError ''Request failed with status code 403'' (Some 403)))\<rparr>"

definition upstream_down :: upstream where
  "upstream_down =
     upstream_ok\<lparr>repo_response := (1, Inl (AxiosError ''Network Error'' None))\<rparr>"

section \<open>JavaScript numbers\<close>

text \<open>
  Arithmetic on computed numbers: NaN is contagious, and every comparison with NaN is
  false. \<^verbatim>\<open>Math.round\<close> rounds to the nearest integer, a half towards \<open>+\<infinity>\<close>.
  The divisors of the modelled code are never zero. The arithmetic is exact, where the
  code's is that of binary64: a computed score can differ from the code's by a rounding
  error, and with it a rounding or a comparison of a score that lies within such an error
  of a tie or of a threshold.
\<close>

fun js_plus :: "jsnum \<Rightarrow> jsnum \<Rightarrow> jsnum" where
  "js_plus (Num a) (Num b) = Num (a + b)"
| "js_plus x y = NaN"

fun js_minus :: "jsnum \<Rightarrow> jsnum \<Rightarrow> jsnum" where
  "js_minus (Num a) (Num b) = Num (a - b)"
| "js_minus x y = NaN"

fun js_times :: "jsnum \<Rightarrow> jsnum \<Rightarrow> jsnum" where
  "js_times (Num a) (Num b) = Num (a * b)"
| "js_times x y = NaN"

fun js_divide :: "jsnum \<Rightarrow> jsnum \<Rightarrow> jsnum" where
  "js_divide (Num a) (Num b) = (if b = 0 then NaN else Num (a / b))"
| "js_divide x y = NaN"

fun Math_min :: "jsnum \<Rightarrow> jsnum \<Rightarrow> jsnum" where
  "Math_min (Num a) (Num b) = Num (min a b)"
| "Math_min x y = NaN"

fun Math_max :: "jsnum \<Rightarrow> jsnum \<Rightarrow> jsnum" where
  "Math_max (Num a) (Num b) = Num (max a b)"
| "Math_max x y = NaN"

definition round_half_up :: "rat \<Rightarrow> rat" where
  "round_half_up x = of_int \<lfloor>x + 1 / 2\<rfloor>"

fun Math_round :: "jsnum \<Rightarrow> jsnum" where
  "Math_round (Num a) = Num (round_half_up a)"
| "Math_round NaN = NaN"

fun js_less :: "jsnum \<Rightarrow> jsnum \<Rightarrow> bool" where
  "js_less (Num a) (Num b) = (a < b)"
| "js_less x y = False"

fun js_ge :: "jsnum \<Rightarrow> jsnum \<Rightarrow> bool" where
  "js_ge (Num a) (Num b) = (a \<ge> b)"
| "js_ge x y = False"

text \<open>\<^verbatim>\<open>x || 0\<close> on a numeric field that may be missing or \<^verbatim>\<open>null\<close> (\<open>None\<close>).\<close>

definition or_zero :: "rat option \<Rightarrow> rat" where
  "or_zero x = (case x of None \<Rightarrow> 0 | Some r \<Rightarrow> if r \<noteq> 0 then r else 0)"

text \<open>\<^verbatim>\<open>xs.slice(-n)\<close>: the last \<open>n\<close> elements, all of them when there are fewer.\<close>

definition slice_last :: "nat \<Rightarrow> 'a list \<Rightarrow> 'a list" where
  "slice_last n xs = drop (length xs - n) xs"

section \<open>Dates\<close>

text \<open>
  \<^verbatim>\<open>new Date(s).getTime()\<close> is the time of \<open>s\<close> in milliseconds since the epoch, and NaN
  when \<open>s\<close> cannot be parsed: the constructor never throws on a string. The health scorer
  takes this function and the readings of \<^verbatim>\<open>Date.now()\<close> as parameters. For concrete
  inputs, \<open>Date_getTime\<close> reads the date-time format of the upstream API,
  \<^verbatim>\<open>YYYY-MM-DDTHH:MM:SSZ\<close>, with a day that the month has. It is NaN on every other string,
  which is what JavaScript gives for the strings without a digit, the only other strings
  it is applied to below, and not for every other string.
\<close>

definition digit_of :: "char \<Rightarrow> int option" where
  "digit_of c =
     (if (48::nat) \<le> of_char c \<and> of_char c \<le> (57::nat) then Some (int (of_char c) - 48)
      else None)"

fun number_of_digits :: "int \<Rightarrow> string \<Rightarrow> int option" where
  "number_of_digits acc [] = Some acc"
| "number_of_digits acc (c # cs) =
     (case digit_of c of None \<Rightarrow> None | Some d \<Rightarrow> number_of_digits (acc * 10 + d) cs)"

definition leap_year :: "int \<Rightarrow> bool" where
  "leap_year y = (y mod 4 = 0 \<and> (y mod 100 \<noteq> 0 \<or> y mod 400 = 0))"

definition days_in_month :: "int \<Rightarrow> int \<Rightarrow> int" where
  "days_in_month y m =
     (if m = 2 then (if leap_year y then 29 else 28)
      else if m = 4 \<or> m = 6 \<or> m = 9 \<or> m = 11 then 30 else 31)"

text \<open>Days from 1970-01-01 to the given day of the proleptic Gregorian calendar.\<close>

definition days_from_civil :: "int \<Rightarrow> int \<Rightarrow> int \<Rightarrow> int" where
  "days_from_civil y m d =
     (let y' = (if m \<le> 2 then y - 1 else y);
          era = y' div 400;
          yoe = y' - era * 400;
          mp = (m + 9) mod 12;
          doy = (153 * mp + 2) div 5 + d - 1;
          doe = yoe * 365 + yoe div 4 - yoe div 100 + doy
      in era * 146097 + doe - 719468)"

definition Date_getTime :: "string \<Rightarrow> jsnum" where
  "Date_getTime s =
     (if length s = 20 \<and> s ! 4 = CHR ''-'' \<and> s ! 7 = CHR ''-'' \<and> s ! 10 = CHR ''T''
         \<and> s ! 13 = CHR '':'' \<and> s ! 16 = CHR '':'' \<and> s ! 19 = CHR ''Z''
      then
        (case (number_of_digits 0 (take 4 s), number_of_digits 0 (take 2 (drop 5 s)),
               number_of_digits 0 (take 2 (drop 8 s)), number_of_digits 0 (take 2 (drop 11 s)),
               number_of_digits 0 (take 2 (drop 14 s)), number_of_digits 0 (take 2 (drop 17 s)))
         of (Some y, Some m, Some d, Some h, Some mi, Some sec) \<Rightarrow>
              if 1 \<le> m \<and> m \<le> 12 \<and> 1 \<le> d \<and> d \<le> days_in_month y m
                 \<and> h \<le> 23 \<and> mi \<le> 59 \<and> sec \<le> 59
              then Num (of_int (days_from_civil y m d * 86400000
                                + (h * 3600 + mi * 60 + sec) * 1000))
              else NaN
          | _ \<Rightarrow> NaN)
      else NaN)"

section \<open>Health scorer\<close>

record Metrics =
  activity :: jsnum
  maintenance :: jsnum
  community :: jsnum
  documentation :: jsnum
  stability :: jsnum

record HealthMetrics =
  score :: jsnum
  grade :: string
  color :: string
  metrics :: Metrics
  recommendations :: "string list"

text \<open>
  The local constants of \<^verbatim>\<open>calculateHealthScore\<close>, one definition each, in the order of
  the source. The scores computed from the counts of the snapshot alone are finite; the
  two scores computed from dates may be NaN. The local \<^verbatim>\<open>recentCommits\<close> is
  \<open>recentCommits_sum\<close> here, since the snapshot has a field of that name.

  Activity: the last four entries, of these the totals of the entries that pass
  \<^verbatim>\<open>week && typeof week.total === 'number'\<close>, summed from 0 as \<^verbatim>\<open>reduce\<close> does. Nothing in
  the guarded block can throw on a JSON array.
\<close>

definition numeric_total :: "CommitActivityWeek option \<Rightarrow> rat option" where
  "numeric_total entry =
     (case entry of None \<Rightarrow> None
      | Some w \<Rightarrow> (case total w of JNumber t \<Rightarrow> Some t | _ \<Rightarrow> None))"

definition numeric_totals :: "CommitActivityWeek option list \<Rightarrow> rat list" where
  "numeric_totals ws = List.map_filter numeric_total ws"

definition recentCommits_sum :: "RepoAnalytics \<Rightarrow> rat" where
  "recentCommits_sum data =
     (case commitActivity data of
        None \<Rightarrow> 0
      | Some ws \<Rightarrow>
          if length ws > 0
          then foldl (\<lambda>sum t. sum + t) 0 (numeric_totals (slice_last 4 ws))
          else 0)"

definition activityScore :: "RepoAnalytics \<Rightarrow> rat" where
  "activityScore data = min 100 ((recentCommits_sum data / 50) * 100)"

definition closedIssues :: "RepoAnalytics \<Rightarrow> nat" where
  "closedIssues data =
     (case issues data of
        None \<Rightarrow> 0
      | Some is \<Rightarrow> length (filter (\<lambda>i. case i of None \<Rightarrow> False
                                   | Some x \<Rightarrow> state x = JString ''closed'') is))"

definition totalIssues :: "RepoAnalytics \<Rightarrow> rat" where
  "totalIssues data = or_zero (open_issues_count (repo data)) + of_nat (closedIssues data)"

definition issueRatio :: "RepoAnalytics \<Rightarrow> rat" where
  "issueRatio data =
     (if totalIssues data > 0 then of_nat (closedIssues data) / totalIssues data else 1 / 2)"

definition maintenanceScore :: "RepoAnalytics \<Rightarrow> rat" where
  "maintenanceScore data = issueRatio data * 100"

definition contributorCount :: "RepoAnalytics \<Rightarrow> nat" where
  "contributorCount data = (case contributors data of None \<Rightarrow> 0 | Some cs \<Rightarrow> length cs)"

definition contributorScore :: "RepoAnalytics \<Rightarrow> rat" where
  "contributorScore data = min 100 ((of_nat (contributorCount data) / 20) * 100)"

definition starScore :: "RepoAnalytics \<Rightarrow> rat" where
  "starScore data = min 100 ((or_zero (stargazers_count (repo data)) / 1000) * 100)"

definition communityScore :: "RepoAnalytics \<Rightarrow> rat" where
  "communityScore data = (contributorScore data + starScore data) / 2"

text \<open>A description is truthy when it is a non-empty string, a license when it is an
  object.\<close>

definition documentationScore :: "RepoAnalytics \<Rightarrow> rat" where
  "documentationScore data =
     (let docScore = 0;
          docScore = (case description (repo data) of
                        None \<Rightarrow> docScore
                      | Some s \<Rightarrow> if s \<noteq> [] then docScore + 40 else docScore);
          docScore = (case license (repo data) of
                        None \<Rightarrow> docScore
                      | Some l \<Rightarrow> docScore + 30);
          docScore = docScore + 30
      in docScore)"

text \<open>
  Stability. The block reads the clock twice, \<open>now1\<close> for the age and \<open>now2\<close> for the
  time since the last update. No statement of the \<^verbatim>\<open>try\<close> block throws (an unparseable
  string gives an invalid date, whose time is NaN), so the \<^verbatim>\<open>catch\<close> branch, which would
  reset both scores to 50, is never entered and has no counterpart here.
\<close>

definition ageInDays :: "rat \<Rightarrow> (string \<Rightarrow> jsnum) \<Rightarrow> RepoAnalytics \<Rightarrow> jsnum" where
  "ageInDays now1 getTime data =
     js_divide (js_minus (Num now1) (getTime (created_at (repo data))))
       (Num (1000 * 60 * 60 * 24))"

definition ageScore :: "rat \<Rightarrow> (string \<Rightarrow> jsnum) \<Rightarrow> RepoAnalytics \<Rightarrow> jsnum" where
  "ageScore now1 getTime data =
     Math_min (Num 100) (js_times (js_divide (ageInDays now1 getTime data) (Num 365)) (Num 50))"

definition daysSinceUpdate :: "rat \<Rightarrow> (string \<Rightarrow> jsnum) \<Rightarrow> RepoAnalytics \<Rightarrow> jsnum" where
  "daysSinceUpdate now2 getTime data =
     js_divide (js_minus (Num now2) (getTime (updated_at (repo data))))
       (Num (1000 * 60 * 60 * 24))"

definition freshnessScore :: "rat \<Rightarrow> (string \<Rightarrow> jsnum) \<Rightarrow> RepoAnalytics \<Rightarrow> jsnum" where
  "freshnessScore now2 getTime data =
     Math_max (Num 0)
       (js_minus (Num 100)
          (js_times (js_divide (daysSinceUpdate now2 getTime data) (Num 30)) (Num 50)))"

definition stabilityScore :: "rat \<Rightarrow> rat \<Rightarrow> (string \<Rightarrow> jsnum) \<Rightarrow> RepoAnalytics \<Rightarrow> jsnum" where
  "stabilityScore now1 now2 getTime data =
     js_divide (js_plus (ageScore now1 getTime data) (freshnessScore now2 getTime data)) (Num 2)"

definition overallScore :: "rat \<Rightarrow> rat \<Rightarrow> (string \<Rightarrow> jsnum) \<Rightarrow> RepoAnalytics \<Rightarrow> jsnum" where
  "overallScore now1 now2 getTime data =
     Math_round
       (js_plus
          (Num (activityScore data * (25 / 100) + maintenanceScore data * (25 / 100)
                + communityScore data * (2 / 10) + documentationScore data * (15 / 100)))
          (js_times (stabilityScore now1 now2 getTime data) (Num (15 / 100))))"

definition grade_color :: "jsnum \<Rightarrow> string \<times> string" where
  "grade_color overall =
     (if js_ge overall (Num 90) then (''A+'', ''#10B981'')
      else if js_ge overall (Num 80) then (''A'', ''#34D399'')
      else if js_ge overall (Num 70) then (''B'', ''#FBBF24'')
      else if js_ge overall (Num 60) then (''C'', ''#F59E0B'')
      else if js_ge overall (Num 50) then (''D'', ''#F97316'')
      else (''F'', ''#EF4444''))"

definition rec_activity :: string where
  "rec_activity = ''Increase commit frequency to show active development''"

definition rec_maintenance :: string where
  "rec_maintenance = ''Address open issues to improve maintenance score''"

definition rec_community :: string where
  "rec_community = ''Encourage more contributors and engagement''"

definition rec_documentation :: string where
  "rec_documentation = ''Improve documentation with detailed README and proper license''"

definition rec_stability :: string where
  "rec_stability = ''Update repository more regularly to maintain stability''"

text \<open>\<^verbatim>\<open>if (c) recommendations.push(s)\<close> on the list built so far.\<close>

definition push_if :: "bool \<Rightarrow> string \<Rightarrow> string list \<Rightarrow> string list" where
  "push_if c s rs = (if c then rs @ [s] else rs)"

text \<open>The list of lines 155 to 160, as a function of the five scores that the function
  has computed by then.\<close>

definition recommendations_for :: "rat \<Rightarrow> rat \<Rightarrow> rat \<Rightarrow> rat \<Rightarrow> jsnum \<Rightarrow> string list" where
  "recommendations_for activityScore' maintenanceScore' communityScore' documentationScore'
       stabilityScore' =
     (let rs = [];
          rs = push_if (activityScore' < 50) rec_activity rs;
          rs = push_if (maintenanceScore' < 60) rec_maintenance rs;
          rs = push_if (communityScore' < 50) rec_community rs;
          rs = push_if (documentationScore' < 70) rec_documentation rs;
          rs = push_if (js_less stabilityScore' (Num 60)) rec_stability rs
      in rs)"

definition recommendations_of ::
  "rat \<Rightarrow> rat \<Rightarrow> (string \<Rightarrow> jsnum) \<Rightarrow> RepoAnalytics \<Rightarrow> string list" where
  "recommendations_of now1 now2 getTime data =
     recommendations_for (activityScore data) (maintenanceScore data) (communityScore data)
       (documentationScore data) (stabilityScore now1 now2 getTime data)"

definition calculateHealthScore ::
  "rat \<Rightarrow> rat \<Rightarrow> (string \<Rightarrow> jsnum) \<Rightarrow> RepoAnalytics \<Rightarrow> HealthMetrics" where
  "calculateHealthScore now1 now2 getTime data =
     \<lparr>score = overallScore now1 now2 getTime data,
      grade = fst (grade_color (overallScore now1 now2 getTime data)),
      color = snd (grade_color (overallScore now1 now2 getTime data)),
      metrics =
        \<lparr>activity = Num (round_half_up (activityScore data)),
         maintenance = Num (round_half_up (maintenanceScore data)),
         community = Num (round_half_up (communityScore data)),
         documentation = Num (round_half_up (documentationScore data)),
         stability = Math_round (stabilityScore now1 now2 getTime data)\<rparr>,
      recommendations = recommendations_of now1 now2 getTime data\<rparr>"

section \<open>Ranges of the health scores\<close>

text \<open>A returned score that is an integer between 0 and 100.\<close>

fun score_in_range :: "jsnum \<Rightarrow> bool" where
  "score_in_range (Num r) = (r \<in> \<int> \<and> 0 \<le> r \<and> r \<le> 100)"
| "score_in_range NaN = False"

text \<open>
  Snapshots whose counts are not negative: every numeric weekly total, the reported
  number of open issues and the number of stars.
\<close>

definition nonneg_total :: "CommitActivityWeek option \<Rightarrow> bool" where
  "nonneg_total w =
     (case w of None \<Rightarrow> True
      | Some x \<Rightarrow> (case total x of JNumber t \<Rightarrow> 0 \<le> t | _ \<Rightarrow> True))"

definition nonneg_counts :: "RepoAnalytics \<Rightarrow> bool" where
  "nonneg_counts data =
     ((case commitActivity data of None \<Rightarrow> True | Some ws \<Rightarrow> list_all nonneg_total ws)
      \<and> 0 \<le> or_zero (open_issues_count (repo data))
      \<and> 0 \<le> or_zero (stargazers_count (repo data)))"

section \<open>Concrete snapshots\<close>

text \<open>
  A repository with 1500 stars, 25 contributors, 40 closed and 10 open issues, a
  description and a license, created two years before and updated one day before the
  clock reading 1717200000000 (2024-06-01), with weekly totals 10, 20, 15 and 25 in its
  last four weeks.
\<close>

definition scenarioA :: RepoAnalytics where
  "scenarioA =
     empty_analytics\<lparr>
       repo := empty_repo\<lparr>description := Some ''A dashboard'', license := Some ''MIT'',
                 stargazers_count := Some 1500, forks_count := 300,
                 open_issues_count := Some 10,
                 created_at := ''2022-06-01T00:00:00Z'',
                 updated_at := ''2024-05-31T00:00:00Z''\<rparr>,
       contributors := Some (replicate 25 \<lparr>login = ''dev'', contributions = 1\<rparr>),
       issues := Some (replicate 40 (Some \<lparr>state = JString ''closed'', labels = Some []\<rparr>)
                       @ replicate 10 (Some \<lparr>state = JString ''open'', labels = Some []\<rparr>)),
       commitActivity := Some (map (\<lambda>t. Some \<lparr>week = JNumber 0, total = JNumber t\<rparr>)
                                 [3, 10, 20, 15, 25])\<rparr>"

text \<open>The same repository with a single week whose total is negative.\<close>

definition negative_week :: RepoAnalytics where
  "negative_week =
     scenarioA\<lparr>commitActivity :=
                 Some [Some \<lparr>week = JNumber 1716681600, total = JNumber (- 5)\<rparr>]\<rparr>"

text \<open>The same repository with a creation timestamp that is not a date.\<close>

definition unparseable_created :: RepoAnalytics where
  "unparseable_created = scenarioA\<lparr>repo := (repo scenarioA)\<lparr>created_at := ''not a date''\<rparr>\<rparr>"



text \<open>A snapshot whose only issue record has the state \<^verbatim>\<open>'merged'\<close>.\<close>

definition one_merged :: "RepoAnalytics option" where
  "one_merged =
     Some (empty_analytics\<lparr>issues := Some [Some \<lparr>state = JString ''merged'',
                                                   labels = Some []\<rparr>]\<rparr>)"

section \<open>Derived metrics: languages and commit activity\<close>

text \<open>The decimal digits of a natural number, as a template literal and \<^verbatim>\<open>toFixed\<close> print
  them.\<close>

fun string_of_nat :: "nat \<Rightarrow> string" where
  "string_of_nat n =
     (if n < 10 then [char_of (48 + n)]
      else string_of_nat (n div 10) @ [char_of (48 + n mod 10)])"

declare string_of_nat.simps [simp del]



record LanguageData =
  name :: string
  lang_value :: rat
  percentage :: string
  color :: string






text \<open>
  The commit-activity window. An entry passes the filter when it is an object whose
  \<^verbatim>\<open>week\<close> and \<^verbatim>\<open>total\<close> are numbers. The field \<open>week_label\<close> is the field \<^verbatim>\<open>week\<close> of
  the result; \<open>toLocaleDateString\<close>, which depends on the locale and the time zone of the
  browser, is a parameter and is applied to the time in milliseconds.
\<close>

record CommitActivityData =
  week_label :: string
  commits :: rat
  date :: string

definition well_formed_week :: "CommitActivityWeek option \<Rightarrow> (rat \<times> rat) option" where
  "well_formed_week entry =
     (case entry of
        None \<Rightarrow> None
      | Some w \<Rightarrow>
          (case (week w, total w) of
             (JNumber wk, JNumber t) \<Rightarrow> Some (wk, t)
           | _ \<Rightarrow> None))"

definition prepareCommitActivityData ::
  "(rat \<Rightarrow> string) \<Rightarrow> RepoAnalytics option \<Rightarrow> CommitActivityData list" where
  "prepareCommitActivityData toLocaleDateString analytics =
     (case analytics of
        None \<Rightarrow> []
      | Some a \<Rightarrow>
          (case commitActivity a of
             None \<Rightarrow> []
           | Some ws \<Rightarrow>
               slice_last 12
                 (map (\<lambda>(index, (wk, t)).
                         \<lparr>week_label = ''Week '' @ string_of_nat (index + 1),
                          commits = max 0 t,
                          date = toLocaleDateString (wk * 1000)\<rparr>)
                    (enumerate 0 (List.map_filter well_formed_week ws)))))"

text \<open>The inline \<^verbatim>\<open>commitData\<close> of the single-view branch of the second component.\<close>

definition commitData ::
  "(rat \<Rightarrow> string) \<Rightarrow> RepoAnalytics option \<Rightarrow> CommitActivityData list" where
  "commitData toLocaleDateString analytics =
     (case analytics of
        None \<Rightarrow> []
      | Some a \<Rightarrow>
          (case commitActivity a of
             None \<Rightarrow> []
           | Some ws \<Rightarrow>
               slice_last 12
                 (map (\<lambda>(index, (wk, t)).
                         \<lparr>week_label = ''Week '' @ string_of_nat (index + 1),
                          commits = max 0 t,
                          date = toLocaleDateString (wk * 1000)\<rparr>)
                    (enumerate 0 (List.map_filter well_formed_week ws)))))"

text \<open>The well-formed entries of a snapshot, as pairs of week and total.\<close>

definition well_formed_weeks :: "RepoAnalytics option \<Rightarrow> (rat \<times> rat) list" where
  "well_formed_weeks analytics =
     (case analytics of
        None \<Rightarrow> []
      | Some a \<Rightarrow>
          (case commitActivity a of
             None \<Rightarrow> []
           | Some ws \<Rightarrow> List.map_filter well_formed_week ws))"

text \<open>
  \<^verbatim>\<open>toLocaleDateString\<close> in the locale \<^verbatim>\<open>en-US\<close> and the time zone UTC, for times of the
  common era: month, day and year of the proleptic Gregorian calendar.
\<close>

definition civil_from_days :: "int \<Rightarrow> int \<times> int \<times> int" where
  "civil_from_days z0 =
     (let z = z0 + 719468;
          era = z div 146097;
          doe = z - era * 146097;
          yoe = (doe - doe div 1460 + doe div 36524 - doe div 146096) div 365;
          doy = doe - (365 * yoe + yoe div 4 - yoe div 100);
          mp = (5 * doy + 2) div 153;
          d = doy - (153 * mp + 2) div 5 + 1;
          m = (if mp < 10 then mp + 3 else mp - 9);
          y = yoe + era * 400
      in (if m \<le> 2 then y + 1 else y, m, d))"

definition toLocaleDateString_en_US :: "rat \<Rightarrow> string" where
  "toLocaleDateString_en_US ms =
     (case civil_from_days (\<lfloor>ms\<rfloor> div 86400000) of
        (y, m, d) \<Rightarrow>
          string_of_nat (nat m) @ ''/'' @ string_of_nat (nat d) @ ''/'' @ string_of_nat (nat y))"


section \<open>Derived metrics: top labels\<close>







text \<open>Snapshots with the given weekly totals, one week after another from 2024-01-07,
  with the given language map, and with labelled issues.\<close>

definition labelled_issues :: "RepoAnalytics option" where
  "labelled_issues =
     Some (empty_analytics\<lparr>issues :=
             Some [Some \<lparr>state = JString ''open'',
                         labels = Some [Some \<lparr>label_name = ''bug'', label_color = ''d73a4a''\<rparr>,
                                        Some \<lparr>label_name = ''ui'', label_color = ''ededed''\<rparr>]\<rparr>,
                   None,
                   Some \<lparr>state = JString ''closed'',
                         labels = Some [Some \<lparr>label_name = ''ui'', label_color = ''ededed''\<rparr>,
                                        None,
                                        Some \<lparr>label_name = ''7'', label_color = ''ffffff''\<rparr>]\<rparr>,
                   Some \<lparr>state = JString ''closed'', labels = None\<rparr>]\<rparr>)"

definition weeks_from :: "rat \<Rightarrow> rat list \<Rightarrow> CommitActivityWeek option list" where
  "weeks_from start ts =
     map (\<lambda>(i, t). Some \<lparr>week = JNumber (start + of_nat i * 604800), total = JNumber t\<rparr>)
       (enumerate 0 ts)"

definition thirteen_weeks :: "RepoAnalytics option" where
  "thirteen_weeks =
     Some (empty_analytics\<lparr>commitActivity :=
             Some (weeks_from 1704585600 [1, 2, 3, 4, 5, 6, 7, 8, 9, 10, 11, 12, 13])\<rparr>)"

definition three_weeks :: "RepoAnalytics option" where
  "three_weeks =
     Some (empty_analytics\<lparr>commitActivity :=
             Some ([Some \<lparr>week = JNumber 1704585600, total = JNumber 4\<rparr>,
                    None,
                    Some \<lparr>week = JString ''1705190400'', total = JNumber 9\<rparr>,
                    Some \<lparr>week = JNumber 1705795200, total = JNumber (- 2)\<rparr>,
                    Some \<lparr>week = JNumber 1706400000, total = JNull\<rparr>,
                    Some \<lparr>week = JNumber 1707004800, total = JNumber 7\<rparr>])\<rparr>)"



section \<open>Runs\<close>








section \<open>Properties of the issue statistics\<close>

lemma valid_filter:
  "length (filter (\<lambda>issue. state issue = JString s)
             [x. Some x \<leftarrow> is, typeof_string (state x)])
   = length (filter (state_is s) is)"
  by (induction "is") (auto simp: state_is_def split: option.splits)

lemma open_closed_disj:
  "length (filter (state_is ''open'') is) + length (filter (state_is ''closed'') is)
   = length (filter open_or_closed is)"
  by (induction "is") (auto simp: state_is_def open_or_closed_def split: option.splits)

lemma getIssueStats_records:
  "getIssueStats analytics =
     \<lparr>opened = length (filter (state_is ''open'') (issue_records analytics)),
      closed = length (filter (state_is ''closed'') (issue_records analytics)),
      total_issues = length (filter open_or_closed (issue_records analytics))\<rparr>"
proof (cases analytics)
  case None
  then show ?thesis by (simp add: getIssueStats_def issue_records_def)
next
  case (Some a)
  then show ?thesis
    by (cases "issues a")
       (simp_all add: getIssueStats_def issue_records_def Let_def valid_filter open_closed_disj)
qed

lemma issueStats_records:
  "issueStats analytics =
     \<lparr>opened = length (filter (state_is ''open'') (issue_records analytics)),
      closed = length (filter (state_is ''closed'') (issue_records analytics)),
      total_issues = length (filter truthy_state (issue_records analytics))\<rparr>"
proof (cases analytics)
  case None
  then show ?thesis by (simp add: issueStats_def issue_records_def)
next
  case (Some a)
  have "state_is s = (\<lambda>i. case i of None \<Rightarrow> False | Some x \<Rightarrow> state x = JString s)" for s
    by (rule ext) (simp add: state_is_def)
  moreover have "truthy_state = (\<lambda>i. case i of None \<Rightarrow> False | Some x \<Rightarrow> truthy (state x))"
    by (rule ext) (simp add: truthy_state_def)
  ultimately show ?thesis using Some
    by (cases "issues a") (simp_all add: issueStats_def issue_records_def)
qed

lemma open_or_closed_truthy: "open_or_closed i \<Longrightarrow> truthy_state i"
  by (auto simp: open_or_closed_def truthy_state_def split: option.splits)

lemma length_filter_mono:
  "(\<And>x. P x \<Longrightarrow> Q x) \<Longrightarrow> length (filter P xs) \<le> length (filter Q xs)"
  by (induction xs) auto

text \<open>
  What the two computations count. \<open>getIssueStats\<close> counts as open the records whose state
  is exactly \<^verbatim>\<open>'open'\<close>, as closed those whose state is exactly \<^verbatim>\<open>'closed'\<close>, and as total
  the records that are one or the other. The inline \<open>issueStats\<close> counts open and closed
  in the same way, and as total every record whose state is truthy.
\<close>

lemma issue_statistics_counts:
  "opened (getIssueStats analytics) + closed (getIssueStats analytics)
     = total_issues (getIssueStats analytics)
   \<and> total_issues (getIssueStats analytics) \<le> length (issue_records analytics)
   \<and> opened (getIssueStats analytics)
       = length (filter (state_is ''open'') (issue_records analytics))
   \<and> closed (getIssueStats analytics)
       = length (filter (state_is ''closed'') (issue_records analytics))
   \<and> total_issues (getIssueStats analytics)
       = length (filter open_or_closed (issue_records analytics))
   \<and> opened (issueStats analytics) = opened (getIssueStats analytics)
   \<and> closed (issueStats analytics) = closed (getIssueStats analytics)
   \<and> total_issues (issueStats analytics)
       = length (filter truthy_state (issue_records analytics))
   \<and> opened (issueStats analytics) + closed (issueStats analytics)
       \<le> total_issues (issueStats analytics)
   \<and> total_issues (issueStats analytics) \<le> length (issue_records analytics)"
proof -
  have "length (filter open_or_closed (issue_records analytics))
        \<le> length (filter truthy_state (issue_records analytics))"
    by (rule length_filter_mono) (rule open_or_closed_truthy)
  then show ?thesis
    by (simp add: getIssueStats_records issueStats_records open_closed_disj)
qed

text \<open>
  Claim C3 at a list of one record whose state is \<^verbatim>\<open>'merged'\<close>. \<open>getIssueStats\<close> leaves the
  record out of all three counts, as the claim says. The inline \<open>issueStats\<close> of the
  single-view branch counts it in its total and in neither open nor closed, so that open
  + closed is not the total.
\<close>

theorem issueStats_merged_total:
  "getIssueStats one_merged = \<lparr>opened = 0, closed = 0, total_issues = 0\<rparr>
   \<and> issueStats one_merged = \<lparr>opened = 0, closed = 0, total_issues = 1\<rparr>
   \<and> opened (issueStats one_merged) + closed (issueStats one_merged)
       \<noteq> total_issues (issueStats one_merged)"
  by (simp add: getIssueStats_def issueStats_def one_merged_def empty_analytics_def)

section \<open>Properties of the health scorer\<close>

lemma round_half_up_range:
  assumes "0 \<le> x" "x \<le> 100"
  shows "round_half_up x \<in> \<int> \<and> 0 \<le> round_half_up x \<and> round_half_up x \<le> 100"
proof -
  have lo: "0 \<le> \<lfloor>x + 1 / 2\<rfloor>" using assms by simp
  have "x + 1 / 2 < 101" using assms by simp
  then have "\<lfloor>x + 1 / 2\<rfloor> < 101" by (simp add: floor_less_iff)
  then have hi: "\<lfloor>x + 1 / 2\<rfloor> \<le> 100" by simp
  have "(of_int \<lfloor>x + 1 / 2\<rfloor> :: rat) \<le> of_int 100" using hi by (simp only: of_int_le_iff)
  moreover have "(of_int 0 :: rat) \<le> of_int \<lfloor>x + 1 / 2\<rfloor>" using lo by (simp only: of_int_le_iff)
  ultimately show ?thesis unfolding round_half_up_def by simp
qed

lemma foldl_plus_sum_list: "foldl (\<lambda>sum t. sum + t) a ts = a + sum_list (ts :: rat list)"
  by (induction ts arbitrary: a) (simp_all add: add.assoc)

lemma numeric_totals_nonneg:
  "list_all nonneg_total ws \<Longrightarrow> 0 \<le> sum_list (numeric_totals ws)"
  unfolding numeric_totals_def
  by (induction ws)
     (auto simp: map_filter_simps numeric_total_def nonneg_total_def split: option.splits jsval.splits)

lemma list_all_slice_last: "list_all P ws \<Longrightarrow> list_all P (slice_last n ws)"
  unfolding slice_last_def list_all_iff by (meson in_set_dropD)

lemma recentCommits_sum_nonneg:
  assumes "nonneg_counts data"
  shows "0 \<le> recentCommits_sum data"
proof (cases "commitActivity data")
  case None
  then show ?thesis by (simp add: recentCommits_sum_def)
next
  case (Some ws)
  with assms have "list_all nonneg_total ws" by (simp add: nonneg_counts_def)
  then have "list_all nonneg_total (slice_last 4 ws)" by (rule list_all_slice_last)
  then have "0 \<le> sum_list (numeric_totals (slice_last 4 ws))"
    by (rule numeric_totals_nonneg)
  then show ?thesis using Some by (simp add: recentCommits_sum_def foldl_plus_sum_list)
qed

lemma activityScore_range: "nonneg_counts data \<Longrightarrow> 0 \<le> activityScore data \<and> activityScore data \<le> 100"
  using recentCommits_sum_nonneg[of data] by (simp add: activityScore_def)

lemma maintenanceScore_range: "nonneg_counts data \<Longrightarrow> 0 \<le> maintenanceScore data \<and> maintenanceScore data \<le> 100"
proof -
  assume a: "nonneg_counts data"
  then have o: "0 \<le> or_zero (open_issues_count (repo data))" by (simp add: nonneg_counts_def)
  show ?thesis
  proof (cases "totalIssues data > 0")
    case True
    have "of_nat (closedIssues data) \<le> totalIssues data" using o by (simp add: totalIssues_def)
    with True have "of_nat (closedIssues data) / totalIssues data \<le> 1" by (simp add: divide_le_eq_1)
    moreover have "0 \<le> (of_nat (closedIssues data) :: rat) / totalIssues data" using True by simp
    ultimately have "0 \<le> of_nat (closedIssues data) / totalIssues data * 100"
      and "of_nat (closedIssues data) / totalIssues data * 100 \<le> 1 * 100"
      by (simp_all only: mult_right_mono zero_le_mult_iff) simp_all
    then show ?thesis using True by (simp add: maintenanceScore_def issueRatio_def)
  next
    case False
    then show ?thesis by (simp add: maintenanceScore_def issueRatio_def)
  qed
qed

lemma communityScore_range: "nonneg_counts data \<Longrightarrow> 0 \<le> communityScore data \<and> communityScore data \<le> 100"
  by (simp add: communityScore_def contributorScore_def starScore_def nonneg_counts_def)

lemma documentationScore_values: "documentationScore data \<in> {30, 60, 70, 100}"
  by (simp add: documentationScore_def Let_def split: option.splits)

lemma documentationScore_range: "0 \<le> documentationScore data \<and> documentationScore data \<le> 100"
  using documentationScore_values[of data] by auto

lemma stabilityScore_parsed:
  assumes "getTime (created_at (repo data)) = Num c"
    and "getTime (updated_at (repo data)) = Num u"
  shows "stabilityScore now1 now2 getTime data =
           Num ((min 100 ((now1 - c) / (1000 * 60 * 60 * 24) / 365 * 50)
                 + max 0 (100 - (now2 - u) / (1000 * 60 * 60 * 24) / 30 * 50)) / 2)"
  using assms
  by (simp add: stabilityScore_def ageScore_def freshnessScore_def ageInDays_def
        daysSinceUpdate_def)

lemma stabilityScore_range:
  assumes "getTime (created_at (repo data)) = Num c" "c \<le> now1"
    and "getTime (updated_at (repo data)) = Num u" "u \<le> now2"
  shows "\<exists>s. stabilityScore now1 now2 getTime data = Num s \<and> 0 \<le> s \<and> s \<le> 100"
proof -
  define age where "age = min 100 ((now1 - c) / (1000 * 60 * 60 * 24) / 365 * 50)"
  define fresh where "fresh = max 0 (100 - (now2 - u) / (1000 * 60 * 60 * 24) / 30 * 50)"
  have a: "0 \<le> age" "age \<le> 100" using assms(2) by (simp_all add: age_def)
  have f: "0 \<le> fresh" "fresh \<le> 100" using assms(4) by (simp_all add: fresh_def)
  have "0 \<le> (age + fresh) / 2" "(age + fresh) / 2 \<le> 100" using a f by simp_all
  moreover have "stabilityScore now1 now2 getTime data = Num ((age + fresh) / 2)"
    unfolding age_def fresh_def by (rule stabilityScore_parsed[OF assms(1) assms(3)])
  ultimately show ?thesis by blast
qed

lemma overallScore_range:
  assumes "nonneg_counts data"
    and "stabilityScore now1 now2 getTime data = Num s" "0 \<le> s" "s \<le> 100"
  shows "score_in_range (overallScore now1 now2 getTime data)"
proof -
  define a where "a = activityScore data"
  define m where "m = maintenanceScore data"
  define k where "k = communityScore data"
  define d where "d = documentationScore data"
  define w where "w = a * (25 / 100) + m * (25 / 100) + k * (2 / 10) + d * (15 / 100)
                      + s * (15 / 100)"
  have r: "0 \<le> a" "a \<le> 100" "0 \<le> m" "m \<le> 100" "0 \<le> k" "k \<le> 100" "0 \<le> d" "d \<le> 100"
    using activityScore_range[OF assms(1)] maintenanceScore_range[OF assms(1)]
      communityScore_range[OF assms(1)] documentationScore_range[of data]
    by (simp_all add: a_def m_def k_def d_def)
  have "0 \<le> w" "w \<le> 100"
    using r assms(3,4) unfolding w_def by linarith+
  then have "score_in_range (Num (round_half_up w))"
    using round_half_up_range[of w] by simp
  then show ?thesis by (simp add: overallScore_def assms(2) w_def a_def m_def k_def d_def)
qed

text \<open>
  Claim C1, as the code has it. For every snapshot whose numeric weekly totals, reported
  number of open issues and number of stars are not negative, and whose creation and
  last-update timestamps parse to times that are not later than the clock readings, the
  overall score and each of the five returned sub-scores is an integer between 0 and 100.
\<close>

theorem health_scores_in_range:
  assumes "nonneg_counts data"
    and "getTime (created_at (repo data)) = Num c" "c \<le> now1"
    and "getTime (updated_at (repo data)) = Num u" "u \<le> now2"
  shows "score_in_range (score (calculateHealthScore now1 now2 getTime data))
       \<and> score_in_range (activity (metrics (calculateHealthScore now1 now2 getTime data)))
       \<and> score_in_range (maintenance (metrics (calculateHealthScore now1 now2 getTime data)))
       \<and> score_in_range (community (metrics (calculateHealthScore now1 now2 getTime data)))
       \<and> score_in_range (documentation (metrics (calculateHealthScore now1 now2 getTime data)))
       \<and> score_in_range (stability (metrics (calculateHealthScore now1 now2 getTime data)))"
proof -
  from stabilityScore_range[OF assms(2-5)] obtain s where
    s: "stabilityScore now1 now2 getTime data = Num s" "0 \<le> s" "s \<le> 100" by blast
  have "score_in_range (overallScore now1 now2 getTime data)"
    using overallScore_range[OF assms(1) s] .
  moreover have "score_in_range (Num (round_half_up (activityScore data)))"
    using activityScore_range[OF assms(1)] round_half_up_range by simp
  moreover have "score_in_range (Num (round_half_up (maintenanceScore data)))"
    using maintenanceScore_range[OF assms(1)] round_half_up_range by simp
  moreover have "score_in_range (Num (round_half_up (communityScore data)))"
    using communityScore_range[OF assms(1)] round_half_up_range by simp
  moreover have "score_in_range (Num (round_half_up (documentationScore data)))"
    using documentationScore_range[of data] round_half_up_range by simp
  moreover have "score_in_range (Math_round (stabilityScore now1 now2 getTime data))"
    using s round_half_up_range by simp
  ultimately show ?thesis by (simp add: calculateHealthScore_def)
qed

lemma scenarioA_dates:
  "Date_getTime (created_at (repo scenarioA)) = Num 1654041600000"
  "Date_getTime (updated_at (repo scenarioA)) = Num 1717113600000"
  by (simp_all add: scenarioA_def empty_analytics_def empty_repo_def Date_getTime_def
        digit_of_def days_from_civil_def days_in_month_def leap_year_def)

lemma scenarioA_counts: "nonneg_counts scenarioA"
  by (simp add: scenarioA_def empty_analytics_def empty_repo_def nonneg_counts_def
        nonneg_total_def or_zero_def)

lemma scenarioA_value:
  "calculateHealthScore 1717200000000 1717200000000 Date_getTime scenarioA =
   \<lparr>score = Num 95, grade = ''A+'', color = ''#10B981'',
    metrics = \<lparr>activity = Num 100, maintenance = Num 80, community = Num 100,
         documentation = Num 100, stability = Num 99\<rparr>, recommendations = []\<rparr>"
  by code_simp

text \<open>
  The theorem at the snapshot \<open>scenarioA\<close>, read on 2024-06-01.
\<close>

theorem health_scores_in_range_witness:
  "nonneg_counts scenarioA
   \<and> Date_getTime (created_at (repo scenarioA)) = Num 1654041600000
   \<and> (1654041600000 :: rat) \<le> 1717200000000
   \<and> Date_getTime (updated_at (repo scenarioA)) = Num 1717113600000
   \<and> (1717113600000 :: rat) \<le> 1717200000000
   \<and> score_in_range
        (score (calculateHealthScore 1717200000000 1717200000000 Date_getTime scenarioA))
   \<and> score_in_range
        (activity (metrics
           (calculateHealthScore 1717200000000 1717200000000 Date_getTime scenarioA)))
   \<and> score_in_range
        (maintenance (metrics
           (calculateHealthScore 1717200000000 1717200000000 Date_getTime scenarioA)))
   \<and> score_in_range
        (community (metrics
           (calculateHealthScore 1717200000000 1717200000000 Date_getTime scenarioA)))
   \<and> score_in_range
        (documentation (metrics
           (calculateHealthScore 1717200000000 1717200000000 Date_getTime scenarioA)))
   \<and> score_in_range
        (stability (metrics
           (calculateHealthScore 1717200000000 1717200000000 Date_getTime scenarioA)))"
proof -
  have c: "(1654041600000 :: rat) \<le> 1717200000000" and u: "(1717113600000 :: rat) \<le> 1717200000000"
    by simp_all
  from health_scores_in_range[OF scenarioA_counts scenarioA_dates(1) c scenarioA_dates(2) u]
  show ?thesis using scenarioA_counts scenarioA_dates by simp
qed

text \<open>
  The claim as written fails. The scores are bounded on one side only: the snapshot
  \<open>scenarioA\<close>, whose last update is of 2024-05-31, scored by a clock that reads 2024-01-01
  has the freshness score 351.6..., the stability sub-score 215 and the overall score
  112; and a week whose total is -5 gives the activity sub-score -10.
\<close>

theorem health_scores_counterexample:
  "score (calculateHealthScore 1704067200000 1704067200000 Date_getTime scenarioA) = Num 112
   \<and> stability (metrics
         (calculateHealthScore 1704067200000 1704067200000 Date_getTime scenarioA)) = Num 215
   \<and> \<not> score_in_range
         (score (calculateHealthScore 1704067200000 1704067200000 Date_getTime scenarioA))
   \<and> activity (metrics
         (calculateHealthScore 1717200000000 1717200000000 Date_getTime negative_week))
       = Num (- 10)
   \<and> \<not> score_in_range
         (activity (metrics
            (calculateHealthScore 1717200000000 1717200000000 Date_getTime negative_week)))"
proof -
  have s: "score (calculateHealthScore 1704067200000 1704067200000 Date_getTime scenarioA)
           = Num 112"
    by code_simp
  have t: "stability (metrics
             (calculateHealthScore 1704067200000 1704067200000 Date_getTime scenarioA))
           = Num 215"
    by code_simp
  have a: "activity (metrics
             (calculateHealthScore 1717200000000 1717200000000 Date_getTime negative_week))
           = Num (- 10)"
    by code_simp
  show ?thesis by (simp add: s t a)
qed

lemma stabilityScore_unparseable:
  assumes "getTime (created_at (repo data)) = NaN \<or> getTime (updated_at (repo data)) = NaN"
  shows "stabilityScore now1 now2 getTime data = NaN"
proof -
  have "ageScore now1 getTime data = NaN \<or> freshnessScore now2 getTime data = NaN"
    using assms
    by (auto simp: ageScore_def ageInDays_def freshnessScore_def daysSinceUpdate_def)
  then show ?thesis
    by (cases "ageScore now1 getTime data"; cases "freshnessScore now2 getTime data")
       (auto simp: stabilityScore_def)
qed

text \<open>
  Claim C5 at a snapshot whose creation timestamp cannot be parsed: the stability
  sub-score and the overall score that the code returns are NaN, where the claim (and the
  comment in the \<^verbatim>\<open>catch\<close> branch of the source) has the age and freshness scores default
  to 50 and the stability sub-score equal 50.
\<close>

theorem unparseable_date_stability:
  "Date_getTime (created_at (repo unparseable_created)) = NaN
   \<and> stability (metrics (calculateHealthScore 1717200000000 1717200000000 Date_getTime
                           unparseable_created)) = NaN
   \<and> score (calculateHealthScore 1717200000000 1717200000000 Date_getTime unparseable_created)
       = NaN
   \<and> stability (metrics (calculateHealthScore 1717200000000 1717200000000 Date_getTime
                           unparseable_created)) \<noteq> Num 50"
proof -
  have d: "Date_getTime (created_at (repo unparseable_created)) = NaN"
    by (simp add: unparseable_created_def Date_getTime_def)
  then have "stabilityScore 1717200000000 1717200000000 Date_getTime unparseable_created = NaN"
    by (simp add: stabilityScore_unparseable)
  then show ?thesis using d by (simp add: calculateHealthScore_def overallScore_def)
qed






text \<open>The recommendations of the report are those for the five scores of the snapshot.\<close>

lemma recommendations_scores:
  "recommendations (calculateHealthScore now1 now2 getTime data) =
     recommendations_for (activityScore data) (maintenanceScore data) (communityScore data)
       (documentationScore data) (stabilityScore now1 now2 getTime data)"
  by (simp add: calculateHealthScore_def recommendations_of_def)



section \<open>Properties of the language distribution\<close>

























section \<open>Properties of the commit-activity window\<close>

lemma slice_last_map: "slice_last n (map f xs) = map f (slice_last n xs)"
  by (simp add: slice_last_def drop_map)

lemma length_slice_last: "length (slice_last n xs) = min n (length xs)"
  by (simp add: slice_last_def)

lemma slice_last_upt: "slice_last n [0..<m] = [m - n..<m]"
  by (simp add: slice_last_def drop_upt)

lemma map_enumerate_snd: "map (\<lambda>(i, x). g x) (enumerate n xs) = map g xs"
  by (induction xs arbitrary: n) simp_all

lemma map_enumerate_fst: "map (\<lambda>(i, x). h i) (enumerate n xs) = map h [n..<n + length xs]"
  by (induction xs arbitrary: n) (simp_all add: upt_rec)

lemma prepareCommitActivityData_weeks:
  "prepareCommitActivityData f analytics =
     slice_last 12
       (map (\<lambda>(index, (wk, t)).
               \<lparr>week_label = ''Week '' @ string_of_nat (index + 1), commits = max 0 t,
                date = f (wk * 1000)\<rparr>)
          (enumerate 0 (well_formed_weeks analytics)))"
  by (simp add: prepareCommitActivityData_def well_formed_weeks_def slice_last_def
      split: option.splits)

lemma commitData_same: "commitData f analytics = prepareCommitActivityData f analytics"
  by (simp add: commitData_def prepareCommitActivityData_def)

lemma well_formed_week_iff:
  "(well_formed_week entry = Some (wk, t)) =
   (\<exists>w. entry = Some w \<and> week w = JNumber wk \<and> total w = JNumber t)"
  by (auto simp: well_formed_week_def split: option.splits jsval.splits)

lemma window_length:
  "length (prepareCommitActivityData f analytics) = min 12 (length (well_formed_weeks analytics))"
  by (simp add: prepareCommitActivityData_weeks length_slice_last)

lemma window_commits:
  "map commits (prepareCommitActivityData f analytics)
     = map (\<lambda>(wk, t). max 0 t) (slice_last 12 (well_formed_weeks analytics))"
proof -
  have "map commits (prepareCommitActivityData f analytics)
        = slice_last 12 (map (\<lambda>(i, x). (\<lambda>(wk, t). max 0 t) x)
                               (enumerate 0 (well_formed_weeks analytics)))"
    by (simp add: prepareCommitActivityData_weeks slice_last_map[symmetric] comp_def
        case_prod_unfold)
  then show ?thesis by (simp only: map_enumerate_snd slice_last_map)
qed

lemma window_dates:
  "map date (prepareCommitActivityData f analytics)
     = map (\<lambda>(wk, t). f (wk * 1000)) (slice_last 12 (well_formed_weeks analytics))"
proof -
  have "map date (prepareCommitActivityData f analytics)
        = slice_last 12 (map (\<lambda>(i, x). (\<lambda>(wk, t). f (wk * 1000)) x)
                               (enumerate 0 (well_formed_weeks analytics)))"
    by (simp add: prepareCommitActivityData_weeks slice_last_map[symmetric] comp_def
        case_prod_unfold)
  then show ?thesis by (simp only: map_enumerate_snd slice_last_map)
qed

lemma window_labels:
  "map week_label (prepareCommitActivityData f analytics)
     = map (\<lambda>i. ''Week '' @ string_of_nat (i + 1))
         [length (well_formed_weeks analytics) - 12..<length (well_formed_weeks analytics)]"
proof -
  have "map week_label (prepareCommitActivityData f analytics)
        = slice_last 12 (map (\<lambda>(i, x). (\<lambda>i. ''Week '' @ string_of_nat (i + 1)) i)
                               (enumerate 0 (well_formed_weeks analytics)))"
    by (simp add: prepareCommitActivityData_weeks slice_last_map[symmetric] comp_def
        case_prod_unfold)
  then show ?thesis by (simp only: map_enumerate_fst slice_last_map slice_last_upt add_0)
qed

lemma window_nonneg: "list_all (\<lambda>d. 0 \<le> commits d) (prepareCommitActivityData f analytics)"
proof -
  have "list_all (\<lambda>c. 0 \<le> c) (map commits (prepareCommitActivityData f analytics))"
    unfolding window_commits by (simp add: list_all_iff case_prod_unfold)
  then show ?thesis by (simp add: list_all_iff)
qed

text \<open>
  Claim C4, as the code has it. For every snapshot and every date formatter, the
  commit-activity window holds the last 12 well-formed entries (those whose \<^verbatim>\<open>week\<close> and
  \<^verbatim>\<open>total\<close> are numbers), in their order: at most 12 entries, each with its total clamped
  at zero, so that no returned \<open>commits\<close> is negative, and with the date of its week. An
  entry is labelled with its position among all the well-formed entries: with \<open>M\<close> of
  them the labels are \<^verbatim>\<open>Week M-11\<close> to \<^verbatim>\<open>Week M\<close>, which are \<^verbatim>\<open>Week 1\<close> to \<^verbatim>\<open>Week N\<close>
  when there are at most 12. The inline \<open>commitData\<close> computes the same list.
\<close>

theorem commit_activity_window:
  "length (prepareCommitActivityData f analytics) = min 12 (length (well_formed_weeks analytics))
   \<and> map commits (prepareCommitActivityData f analytics)
       = map (\<lambda>(wk, t). max 0 t) (slice_last 12 (well_formed_weeks analytics))
   \<and> map date (prepareCommitActivityData f analytics)
       = map (\<lambda>(wk, t). f (wk * 1000)) (slice_last 12 (well_formed_weeks analytics))
   \<and> map week_label (prepareCommitActivityData f analytics)
       = map (\<lambda>i. ''Week '' @ string_of_nat (i + 1))
           [length (well_formed_weeks analytics) - 12..<length (well_formed_weeks analytics)]
   \<and> list_all (\<lambda>d. 0 \<le> commits d) (prepareCommitActivityData f analytics)
   \<and> (length (well_formed_weeks analytics) \<le> 12 \<longrightarrow>
        map week_label (prepareCommitActivityData f analytics)
          = map (\<lambda>i. ''Week '' @ string_of_nat (i + 1))
              [0..<length (prepareCommitActivityData f analytics)])
   \<and> commitData f analytics = prepareCommitActivityData f analytics"
proof -
  have "length (well_formed_weeks analytics) \<le> 12 \<longrightarrow>
        map week_label (prepareCommitActivityData f analytics)
          = map (\<lambda>i. ''Week '' @ string_of_nat (i + 1))
              [0..<length (prepareCommitActivityData f analytics)]"
    by (simp add: window_labels window_length)
  then show ?thesis
    using window_length[of f analytics] window_commits[of f analytics]
      window_dates[of f analytics] window_labels[of f analytics]
      window_nonneg[of f analytics] commitData_same[of f analytics]
    by blast
qed

lemma three_weeks_well_formed:
  "well_formed_weeks three_weeks = [(1704585600, 4), (1705795200, - 2), (1707004800, 7)]"
  by code_simp

lemma three_labels:
  "map (\<lambda>i. ''Week '' @ string_of_nat (i + 1)) [0..<3] = [''Week 1'', ''Week 2'', ''Week 3'']"
  by code_simp

lemma three_dates:
  "map (\<lambda>(wk, t). toLocaleDateString_en_US (wk * 1000))
     [(1704585600, 4), (1705795200, - 2), (1707004800, 7 :: rat)]
   = [''1/7/2024'', ''1/21/2024'', ''2/4/2024'']"
  by code_simp

text \<open>
  The theorem at six entries of which three are well formed, one with a negative total.
\<close>

theorem commit_activity_window_witness:
  "length (well_formed_weeks three_weeks) \<le> 12
   \<and> map week_label (prepareCommitActivityData toLocaleDateString_en_US three_weeks)
     = [''Week 1'', ''Week 2'', ''Week 3'']
   \<and> map commits (prepareCommitActivityData toLocaleDateString_en_US three_weeks) = [4, 0, 7]
   \<and> map date (prepareCommitActivityData toLocaleDateString_en_US three_weeks)
     = [''1/7/2024'', ''1/21/2024'', ''2/4/2024'']"
proof -
  have l: "length (well_formed_weeks three_weeks) \<le> 12" by (simp add: three_weeks_well_formed)
  have n: "length (prepareCommitActivityData toLocaleDateString_en_US three_weeks) = 3"
    using commit_activity_window[of toLocaleDateString_en_US three_weeks]
    by (simp add: three_weeks_well_formed)
  have s: "slice_last 12 (well_formed_weeks three_weeks)
           = [(1704585600, 4), (1705795200, - 2), (1707004800, 7)]"
    by (simp add: three_weeks_well_formed slice_last_def)
  from commit_activity_window[of toLocaleDateString_en_US three_weeks] l
  have "map week_label (prepareCommitActivityData toLocaleDateString_en_US three_weeks)
          = map (\<lambda>i. ''Week '' @ string_of_nat (i + 1))
              [0..<length (prepareCommitActivityData toLocaleDateString_en_US three_weeks)]"
    and "map commits (prepareCommitActivityData toLocaleDateString_en_US three_weeks)
       = map (\<lambda>(wk, t). max 0 t) (slice_last 12 (well_formed_weeks three_weeks))"
    and "map date (prepareCommitActivityData toLocaleDateString_en_US three_weeks)
       = map (\<lambda>(wk, t). toLocaleDateString_en_US (wk * 1000))
           (slice_last 12 (well_formed_weeks three_weeks))"
    by blast+
  moreover have "map (\<lambda>(wk, t). max 0 t) [(1704585600, 4), (1705795200, - 2), (1707004800, 7 :: rat)]
                 = [4, 0, 7 :: rat]"
    by simp
  ultimately show ?thesis using l by (simp only: n s three_labels three_dates simp_thms)
qed

lemma thirteen_weeks_length: "length (well_formed_weeks thirteen_weeks) = 13"
  by code_simp

lemma thirteen_labels:
  "map (\<lambda>i. ''Week '' @ string_of_nat (i + 1)) [13 - 12..<13]
   = [''Week 2'', ''Week 3'', ''Week 4'', ''Week 5'', ''Week 6'', ''Week 7'', ''Week 8'',
      ''Week 9'', ''Week 10'', ''Week 11'', ''Week 12'', ''Week 13'']"
  by code_simp

text \<open>
  The claim as written fails when more than 12 entries are well formed, since the labels
  are given before the window is cut: of 13 weeks the 12 that are kept are labelled
  \<^verbatim>\<open>Week 2\<close> to \<^verbatim>\<open>Week 13\<close>.
\<close>

theorem week_labels_counterexample:
  "map week_label (prepareCommitActivityData toLocaleDateString_en_US thirteen_weeks)
     = [''Week 2'', ''Week 3'', ''Week 4'', ''Week 5'', ''Week 6'', ''Week 7'', ''Week 8'',
        ''Week 9'', ''Week 10'', ''Week 11'', ''Week 12'', ''Week 13'']
   \<and> map week_label (commitData toLocaleDateString_en_US thirteen_weeks)
     = [''Week 2'', ''Week 3'', ''Week 4'', ''Week 5'', ''Week 6'', ''Week 7'', ''Week 8'',
        ''Week 9'', ''Week 10'', ''Week 11'', ''Week 12'', ''Week 13'']"
  by (simp only: commitData_same window_labels thirteen_weeks_length thirteen_labels)

section \<open>Properties of the aggregation and of the error handling\<close>

lemma Promise_all_fulfilled:
  "(\<exists>t. Promise_all p q = (t, Inr (a, b))) = (snd p = Inr a \<and> snd q = Inr b)"
  by (auto simp: Promise_all_def split: sum.splits if_splits)

lemma Promise_all_rejected:
  "Promise_all p q = (t, Inl e) \<Longrightarrow> snd p = Inl e \<or> snd q = Inl e"
  by (auto simp: Promise_all_def split: sum.splits if_splits)

lemma rethrow_fulfilled: "(snd (rethrow pre p) = Inr v) = (snd p = Inr v)"
  by (auto simp: rethrow_def split: sum.splits)

lemma rethrow_plain: "snd (rethrow pre p) = Inl e \<Longrightarrow> \<exists>m. e = Error m"
  by (auto simp: rethrow_def split: sum.splits)

text \<open>Every error that the aggregation throws is a plain error: it has no response.\<close>

lemma getFullAnalytics_plain: "getFullAnalytics up = Inl e \<Longrightarrow> \<exists>m. e = Error m"
  by (auto simp: getFullAnalytics_def split: prod.splits sum.splits)

lemma errorHandler_plain:
  "status (errorHandler development (Error m)) = 500
   \<and> error (errorHandler development (Error m)) = ''Internal server error''"
  by (simp add: errorHandler_def)

text \<open>Whatever fails upstream, the response of the route has the status 500.\<close>

lemma analyze_failure:
  "analyze development up = Inl r \<Longrightarrow> status r = 500 \<and> error r = ''Internal server error''"
  by (auto simp: analyze_def errorHandler_plain split: sum.splits dest!: getFullAnalytics_plain)

text \<open>The aggregation returns a snapshot only when the repository request succeeded,
  and then the snapshot holds its data: the same holds for the other requests.\<close>

lemma Promise_all_both:
  "Promise_all p q = (t, Inr (a, b)) \<Longrightarrow> snd p = Inr a \<and> snd q = Inr b"
  using Promise_all_fulfilled[of p q a b] by blast

lemma getFullAnalytics_repo:
  assumes "getFullAnalytics up = Inr a"
  shows "snd (repo_response up) = Inr (repo a)"
  using assms unfolding getFullAnalytics_def
  by (auto split: prod.splits sum.splits dest!: Promise_all_both
      simp: getRepoInfo_def rethrow_fulfilled)

lemma getFullAnalytics_rejected:
  assumes "\<exists>e. snd (repo_response up) = Inl e"
  shows "\<exists>m. getFullAnalytics up = Inl (Error m)"
proof (cases "getFullAnalytics up")
  case (Inl e)
  then show ?thesis using getFullAnalytics_plain by blast
next
  case (Inr a)
  then show ?thesis using getFullAnalytics_repo assms by fastforce
qed

text \<open>
  Claim C9 where the upstream API answers the repository request with the status 404,
  with the status 403, or not at all, in production: the aggregation fails as a whole,
  and the middleware answers each time with the status 500 and the error
  \<^verbatim>\<open>Internal server error\<close>, since the errors that the service throws again are plain errors
  without a response. Handed the error of the HTTP client itself, the middleware would
  tell the three apart.
\<close>

theorem fetch_failures_surface_alike:
  "analyze False upstream_404
     = Inl \<lparr>status = 500, error = ''Internal server error'', details = None, message = None\<rparr>
   \<and> analyze False upstream_403 = analyze False upstream_404
   \<and> analyze False upstream_down = analyze False upstream_404
   \<and> errorHandler False (AxiosError ''Request failed with status code 404'' (Some 404))
     = \<lparr>status = 404, error = ''Repository not found'', details = None, message = None\<rparr>
   \<and> errorHandler False (AxiosError ''Request failed with status code 403'' (Some 403))
     = \<lparr>status = 403, error = ''GitHub API rate limit exceeded'', details = None,
        message = None\<rparr>
   \<and> errorHandler False (AxiosError ''Network Error'' None)
     = \<lparr>status = 500, error = ''Internal server error'', details = None, message = None\<rparr>"
  by (simp add: analyze_def getFullAnalytics_def Promise_all_def rethrow_def getRepoInfo_def
      getContributors_def getCommits_def getIssues_def getCommitActivity_def getLanguages_def
      upstream_404_def upstream_403_def upstream_down_def upstream_ok_def errorHandler_def)

section \<open>Two runs on one snapshot\<close>







section \<open>Properties of the URL validation\<close>

lemma match_repo_sound:
  "match_repo acc rest = Some r \<Longrightarrow>
     \<exists>mid sfx. rest = mid @ sfx \<and> r = acc @ mid \<and> CHR ''/'' \<notin> set mid
        \<and> (sfx = [] \<or> sfx = ''/'' \<or> sfx = ''.git'')"
proof (induction acc rest rule: match_repo.induct)
  case (1 acc)
  then show ?case by simp
next
  case (2 acc c cs)
  show ?case
  proof (cases "c # cs = ''/'' \<or> c # cs = ''.git''")
    case True
    with 2 have "r = acc" by simp
    with True show ?thesis by (intro exI[of _ "[]"] exI[of _ "c # cs"]) auto
  next
    case False
    with 2 have nc: "c \<noteq> CHR ''/''" and m: "match_repo (acc @ [c]) cs = Some r"
      by (auto split: if_splits)
    from 2(1)[OF False nc m] obtain mid sfx where
      "cs = mid @ sfx" "r = (acc @ [c]) @ mid" "CHR ''/'' \<notin> set mid"
      "sfx = [] \<or> sfx = ''/'' \<or> sfx = ''.git''" by blast
    with nc show ?thesis by (intro exI[of _ "c # mid"] exI[of _ sfx]) auto
  qed
qed

lemma match_repo_complete:
  "CHR ''/'' \<notin> set mid \<Longrightarrow> sfx = [] \<or> sfx = ''/'' \<or> sfx = ''.git'' \<Longrightarrow>
     \<exists>r. match_repo acc (mid @ sfx) = Some r"
proof (induction mid arbitrary: acc)
  case Nil
  then show ?case by auto
next
  case (Cons c mid)
  then show ?case by (cases "c # mid @ sfx = ''.git''") auto
qed

lemma validateRepoUrl_cases:
  "validateRepoUrl url = Inl (Error ''Invalid GitHub repository URL'')
   \<or> (\<exists>ow rp. validateRepoUrl url = Inr (ow, rp))"
  by (auto simp: validateRepoUrl_def Let_def split: list.splits option.splits)

lemma validateRepoUrl_sound:
  assumes "validateRepoUrl url = Inr (ow, rp)"
  shows "\<exists>sfx. url = ''https://github.com/'' @ ow @ ''/'' @ rp @ sfx
           \<and> (sfx = [] \<or> sfx = ''/'' \<or> sfx = ''.git'')
           \<and> ow \<noteq> [] \<and> CHR ''/'' \<notin> set ow \<and> rp \<noteq> [] \<and> CHR ''/'' \<notin> set rp"
proof -
  define rest where "rest = drop 19 url"
  from assms have pre: "take 19 url = ''https://github.com/''"
    by (auto simp: validateRepoUrl_def split: if_splits)
  from assms pre have ow: "ow = takeWhile (\<lambda>c. c \<noteq> CHR ''/'') rest" and ne: "ow \<noteq> []"
    by (auto simp: validateRepoUrl_def Let_def rest_def split: if_splits list.splits option.splits)
  from assms pre obtain s c cs where
    dw: "dropWhile (\<lambda>c. c \<noteq> CHR ''/'') rest = s # c # cs" and c: "c \<noteq> CHR ''/''"
    and m: "match_repo [c] cs = Some rp"
    by (auto simp: validateRepoUrl_def Let_def rest_def split: if_splits list.splits option.splits)
  from dw have s: "s = CHR ''/''"
    using hd_dropWhile[of "\<lambda>c. c \<noteq> CHR ''/''" rest] by auto
  have rest: "rest = ow @ s # c # cs"
    using takeWhile_dropWhile_id[of "\<lambda>c. c \<noteq> CHR ''/''" rest] ow dw by simp
  from match_repo_sound[OF m] obtain mid sfx where
    ms: "cs = mid @ sfx" "rp = [c] @ mid" "CHR ''/'' \<notin> set mid"
        "sfx = [] \<or> sfx = ''/'' \<or> sfx = ''.git''" by blast
  have url: "url = ''https://github.com/'' @ rest"
    using append_take_drop_id[of 19 url] pre rest_def by metis
  have now: "CHR ''/'' \<notin> set ow"
    unfolding ow using set_takeWhileD by fastforce
  show ?thesis
    apply (rule exI[of _ sfx])
    using url rest s ms c ne now by auto
qed

lemma validateRepoUrl_complete:
  assumes "repo_url_form url"
  shows "\<exists>ow rp. validateRepoUrl url = Inr (ow, rp)"
proof -
  from assms obtain ow rp sfx where
    url: "url = ''https://github.com/'' @ ow @ ''/'' @ rp @ sfx"
    and ow: "ow \<noteq> []" "CHR ''/'' \<notin> set ow" and rp: "rp \<noteq> []" "CHR ''/'' \<notin> set rp"
    and sfx: "sfx = [] \<or> sfx = ''/'' \<or> sfx = ''.git''"
    unfolding repo_url_form_def by blast
  from rp obtain c mid where cm: "rp = c # mid" "c \<noteq> CHR ''/''" "CHR ''/'' \<notin> set mid"
    by (cases rp) auto
  have pre: "take 19 url = ''https://github.com/''" by (simp add: url)
  have rest: "drop 19 url = ow @ CHR ''/'' # c # mid @ sfx" by (simp add: url cm)
  have tw: "takeWhile (\<lambda>c. c \<noteq> CHR ''/'') (ow @ CHR ''/'' # c # mid @ sfx) = ow"
    using ow(2) by (subst takeWhile_append2) auto
  have dw: "dropWhile (\<lambda>c. c \<noteq> CHR ''/'') (ow @ CHR ''/'' # c # mid @ sfx) = CHR ''/'' # c # mid @ sfx"
    using ow(2) by (subst dropWhile_append2) auto
  from match_repo_complete[OF cm(3) sfx, of "[c]"] obtain r where
    "match_repo [c] (mid @ sfx) = Some r" by blast
  then show ?thesis
    using pre ow(1) cm(2) by (simp add: validateRepoUrl_def Let_def rest tw dw)
qed

text \<open>
  Claim C10. For every input string, \<open>validateRepoUrl\<close> either throws the error
  \<^verbatim>\<open>Invalid GitHub repository URL\<close> or returns an owner and a repository name; it returns
  exactly for the strings of the form \<^verbatim>\<open>https://github.com/<owner>/<repo>\<close> with an
  optional trailing \<^verbatim>\<open>/\<close> or \<^verbatim>\<open>.git\<close>, and then the owner and the repository name
  it returns are non-empty, contain no slash, and are those of the input.
\<close>

theorem validateRepoUrl_spec:
  "(validateRepoUrl url = Inl (Error ''Invalid GitHub repository URL'')
      \<or> (\<exists>ow rp. validateRepoUrl url = Inr (ow, rp)))
   \<and> ((\<exists>ow rp. validateRepoUrl url = Inr (ow, rp)) = repo_url_form url)
   \<and> (\<forall>ow rp. validateRepoUrl url = Inr (ow, rp) \<longrightarrow>
         ow \<noteq> [] \<and> CHR ''/'' \<notin> set ow \<and> rp \<noteq> [] \<and> CHR ''/'' \<notin> set rp
         \<and> (\<exists>sfx. url = ''https://github.com/'' @ ow @ ''/'' @ rp @ sfx
               \<and> (sfx = [] \<or> sfx = ''/'' \<or> sfx = ''.git'')))"
proof (intro conjI allI impI)
  show "validateRepoUrl url = Inl (Error ''Invalid GitHub repository URL'')
      \<or> (\<exists>ow rp. validateRepoUrl url = Inr (ow, rp))" by (rule validateRepoUrl_cases)
next
  show "(\<exists>ow rp. validateRepoUrl url = Inr (ow, rp)) = repo_url_form url"
  proof
    assume "\<exists>ow rp. validateRepoUrl url = Inr (ow, rp)"
    then obtain ow rp where "validateRepoUrl url = Inr (ow, rp)" by blast
    from validateRepoUrl_sound[OF this] show "repo_url_form url"
      unfolding repo_url_form_def by blast
  next
    assume "repo_url_form url"
    then show "\<exists>ow rp. validateRepoUrl url = Inr (ow, rp)" by (rule validateRepoUrl_complete)
  qed
next
  fix ow rp assume a: "validateRepoUrl url = Inr (ow, rp)"
  from validateRepoUrl_sound[OF a] show "ow \<noteq> []" "CHR ''/'' \<notin> set ow" "rp \<noteq> []" "CHR ''/'' \<notin> set rp"
    "\<exists>sfx. url = ''https://github.com/'' @ ow @ ''/'' @ rp @ sfx
               \<and> (sfx = [] \<or> sfx = ''/'' \<or> sfx = ''.git'')" by blast+
qed

text \<open>The theorem at \<^verbatim>\<open>https://github.com/facebook/react.git\<close>.\<close>

theorem validateRepoUrl_spec_witness:
  "validateRepoUrl ''https://github.com/facebook/react.git'' = Inr (''facebook'', ''react'')
   \<and> ''facebook'' \<noteq> [] \<and> CHR ''/'' \<notin> set ''facebook'' \<and> ''react'' \<noteq> [] \<and> CHR ''/'' \<notin> set ''react''
   \<and> repo_url_form ''https://github.com/facebook/react.git''"
proof -
  have v: "validateRepoUrl ''https://github.com/facebook/react.git'' = Inr (''facebook'', ''react'')"
    by (simp add: validateRepoUrl_def)
  from validateRepoUrl_spec[of "''https://github.com/facebook/react.git''"] v
  show ?thesis by blast
qed

end
